theory Spec2Isabelle
  imports Main "HOL-Library.Word"
begin

section \<open>The wallet cache of abcd/Wallet.cpp\<close>

text \<open>
  A shallow embedding of \<^verbatim>\<open>src/abcd/Wallet.cpp\<close>: the process-wide cache of decrypted
  wallet records (\<^verbatim>\<open>gaWalletsCacheArray\<close>, \<^verbatim>\<open>gWalletsCacheCount\<close>) and the operations
  \<^verbatim>\<open>ABC_WalletCacheData\<close>, \<^verbatim>\<open>ABC_WalletAddToCache\<close>, \<^verbatim>\<open>ABC_WalletGetFromCacheByUUID\<close>,
  \<^verbatim>\<open>ABC_WalletClearCache\<close>, \<^verbatim>\<open>ABC_WalletSetName\<close> and \<^verbatim>\<open>ABC_WalletGetInfo\<close>.

  The cache array holds pointers to heap structs, and \<^verbatim>\<open>ABC_WalletSetName\<close> writes through
  such a pointer, so the model has an explicit store: addresses are natural numbers, address
  \<open>0\<close> is \<^verbatim>\<open>NULL\<close>, and the heap maps every address to a \<^verbatim>\<open>tWalletData\<close> struct.
  Every function takes the state and returns the new one together with its result; a
  \<^verbatim>\<open>tABC_CC\<close> other than \<^verbatim>\<open>ABC_CC_Ok\<close> is the \<open>Inl\<close> of a sum.
\<close>

subsection \<open>Data\<close>

type_synonym byte = "8 word"

text \<open>
  \<^verbatim>\<open>tABC_U08Buf\<close>: a start and an end pointer. The model keeps the bytes between them; the
  zeroed (or freed) buffer is the empty list.
\<close>

type_synonym tABC_U08Buf = "byte list"

type_synonym addr = nat

abbreviation NULL :: addr where
  "NULL \<equiv> 0"

text \<open>
  The values of \<^verbatim>\<open>tABC_CC\<close> other than \<^verbatim>\<open>ABC_CC_Ok\<close>. The enumeration is declared
  outside \<^verbatim>\<open>src/\<close>; these are the codes this file produces itself
  (\<^verbatim>\<open>ABC_CC_WalletAlreadyExists\<close>, and \<^verbatim>\<open>ABC_CC_NULLPtr\<close> through \<^verbatim>\<open>ABC_CHECK_NULL\<close>)
  and the codes its collaborators report.
\<close>

datatype error =
    ABC_CC_Error
  | ABC_CC_JSONError
  | ABC_CC_NULLPtr
  | ABC_CC_FileDoesNotExist
  | ABC_CC_WalletAlreadyExists
  | ABC_CC_DecryptFailure
  | ABC_CC_EncryptError
  | ABC_CC_ParseError
  | ABC_CC_InvalidWalletID

text \<open>\<^verbatim>\<open>struct sWalletData\<close>. A \<^verbatim>\<open>char *\<close> field is \<open>None\<close> when it is \<^verbatim>\<open>NULL\<close>.\<close>

record tWalletData =
  szUUID :: "string option"
  szName :: "string option"
  szWalletAcctKey :: "string option"
  currencyNum :: int
  MK :: tABC_U08Buf
  BitcoinPrivateSeed :: tABC_U08Buf

text \<open>What \<^verbatim>\<open>calloc\<close> and a \<^verbatim>\<open>memset\<close> to zero leave in a \<^verbatim>\<open>tWalletData\<close>.\<close>

definition zero_tWalletData :: tWalletData where
  "zero_tWalletData =
     \<lparr>szUUID = None, szName = None, szWalletAcctKey = None, currencyNum = 0,
      MK = [], BitcoinPrivateSeed = []\<rparr>"

text \<open>
  \<^verbatim>\<open>tABC_WalletInfo\<close>, the snapshot \<^verbatim>\<open>ABC_WalletGetInfo\<close> hands out. Its fields carry the
  prefix \<open>info_\<close> here, since \<^verbatim>\<open>szUUID\<close>, \<^verbatim>\<open>szName\<close> and \<^verbatim>\<open>currencyNum\<close> are fields of
  \<^verbatim>\<open>tWalletData\<close> as well.
\<close>

record tABC_WalletInfo =
  info_szUUID :: "string option"
  info_szName :: "string option"
  info_currencyNum :: int
  info_archived :: bool
  info_balanceSatoshi :: int

definition zero_tABC_WalletInfo :: tABC_WalletInfo where
  "zero_tABC_WalletInfo =
     \<lparr>info_szUUID = None, info_szName = None, info_currencyNum = 0,
      info_archived = False, info_balanceSatoshi = 0\<rparr>"

text \<open>
  \<^verbatim>\<open>struct WalletJson\<close>: the three string fields \<^verbatim>\<open>"MK"\<close>, \<^verbatim>\<open>"SyncKey"\<close> and
  \<^verbatim>\<open>"BitcoinSeed"\<close> of the wallet's entry in the account's wallet list, each of which may
  be missing.
\<close>

record WalletJson =
  dataKey :: "string option"
  syncKey :: "string option"
  bitcoinKey :: "string option"

text \<open>
  Modelled from the spec: the macro \<^verbatim>\<open>ABC_JSON_STRING\<close> of \<^verbatim>\<open>json/JsonObject.hpp\<close> is not
  under \<^verbatim>\<open>src/\<close>. It declares \<^verbatim>\<open>dataKeyOk()\<close>, which fails when the field is absent
  (the spec's MissingFieldError), and \<^verbatim>\<open>dataKey()\<close>, which reads it. The source always
  calls the first and then the second; the model joins them, the check returning the
  string that the read then yields.
\<close>

definition ABC_JSON_STRING_Ok :: "string option \<Rightarrow> error + string" where
  "ABC_JSON_STRING_Ok field = (case field of None \<Rightarrow> Inl ABC_CC_JSONError | Some v \<Rightarrow> Inr v)"

text \<open>
  \<^verbatim>\<open>Wallet &self\<close>: the source reads \<^verbatim>\<open>self.id()\<close> and \<^verbatim>\<open>self.syncDir()\<close>; the account
  behind \<^verbatim>\<open>self.account\<close> belongs to the world below. (\<open>id\<close> is HOL's identity function,
  hence the suffix.)
\<close>

record Wallet =
  id_Wallet :: string
  syncDir :: string

text \<open>
  The collaborators of \<^verbatim>\<open>Wallet.cpp\<close>, none of which is under \<^verbatim>\<open>src/\<close>: they are
  parameters of the model. \<open>'w\<close> is the state of everything outside the cache (the
  disk, the account's wallet list, the transaction data behind the balance). Only
  \<^verbatim>\<open>ABC_CryptoEncryptJSONFile\<close> changes it, and what a failed write leaves behind is up to
  that collaborator.
\<close>

record 'w Collaborators =
  wallets_json :: "'w \<Rightarrow> string \<Rightarrow> error + WalletJson"
  wallets_archived :: "'w \<Rightarrow> string \<Rightarrow> error + bool"
  balance :: "'w \<Rightarrow> Wallet \<Rightarrow> error + int"
  base16Decode :: "string \<Rightarrow> error + byte list"
  fileExists :: "'w \<Rightarrow> string \<Rightarrow> bool"
  ABC_CryptoDecryptJSONFile :: "'w \<Rightarrow> string \<Rightarrow> tABC_U08Buf \<Rightarrow> error + byte list"
  ABC_CryptoEncryptJSONFile :: "byte list \<Rightarrow> tABC_U08Buf \<Rightarrow> string \<Rightarrow> 'w \<Rightarrow> (error + unit) \<times> 'w"
  ABC_UtilGetStringValueFromJSONString :: "byte list \<Rightarrow> string \<Rightarrow> error + string"
  ABC_UtilGetIntValueFromJSONString :: "byte list \<Rightarrow> string \<Rightarrow> error + int"
  ABC_UtilCreateValueJSONString :: "string \<Rightarrow> string \<Rightarrow> error + string"

text \<open>
  The program state: the heap of \<^verbatim>\<open>tWalletData\<close> structs with its allocator, the two
  globals of the cache, and the world. \<open>brk\<close> is the next address \<^verbatim>\<open>calloc\<close> hands out;
  freed addresses are not handed out again. \<^verbatim>\<open>gaWalletsCacheArray\<close> is \<open>None\<close> when it is
  \<^verbatim>\<open>NULL\<close>. \<^verbatim>\<open>gWalletsCacheCount\<close> is an \<^verbatim>\<open>unsigned int\<close> that only ever counts the
  cached wallets, a natural number here.
\<close>

record 'w state =
  heap :: "addr \<Rightarrow> tWalletData"
  brk :: addr
  gWalletsCacheCount :: nat
  gaWalletsCacheArray :: "addr list option"
  world :: 'w

definition init :: "'w \<Rightarrow> 'w state" where
  "init w =
     \<lparr>heap = (\<lambda>_. zero_tWalletData), brk = 1, gWalletsCacheCount = 0,
      gaWalletsCacheArray = None, world = w\<rparr>"

definition WALLET_NAME_FILENAME :: string where
  "WALLET_NAME_FILENAME = ''WalletName.json''"

definition WALLET_CURRENCY_FILENAME :: string where
  "WALLET_CURRENCY_FILENAME = ''Currency.json''"

definition JSON_WALLET_NAME_FIELD :: string where
  "JSON_WALLET_NAME_FIELD = ''walletName''"

definition JSON_WALLET_CURRENCY_NUM_FIELD :: string where
  "JSON_WALLET_CURRENCY_NUM_FIELD = ''num''"

subsection \<open>The macros of util/Util.hpp\<close>

text \<open>
  Modelled from the spec: \<^verbatim>\<open>util/Util.hpp\<close> and \<^verbatim>\<open>util/Status.hpp\<close> are not under
  \<^verbatim>\<open>src/\<close>. \<^verbatim>\<open>ABC_CHECK_RET\<close> and \<^verbatim>\<open>ABC_CHECK_NEW\<close> run a fallible step and jump to
  \<^verbatim>\<open>exit\<close> with its error code when it fails (the spec: every failure aborts the whole
  call); \<open>ABC_CHECK m k\<close> is the step \<open>m\<close> followed, when it succeeds, by the rest \<open>k\<close> of
  the function. Allocation (\<^verbatim>\<open>ABC_NEW\<close>, \<^verbatim>\<open>ABC_STRDUP\<close>, \<^verbatim>\<open>ABC_BUF_DUP\<close>,
  \<^verbatim>\<open>ABC_ARRAY_NEW\<close>, \<^verbatim>\<open>ABC_ARRAY_RESIZE\<close>) is taken to succeed.
\<close>

fun ABC_CHECK :: "error + 'a \<Rightarrow> ('a \<Rightarrow> error + 'b) \<Rightarrow> error + 'b" where
  "ABC_CHECK (Inl e) k = Inl e"
| "ABC_CHECK (Inr x) k = k x"

text \<open>\<^verbatim>\<open>ABC_NEW(pData, tWalletData)\<close>: a fresh, zeroed struct.\<close>

definition ABC_NEW :: "'w state \<Rightarrow> addr \<times> 'w state" where
  "ABC_NEW s = (brk s, s\<lparr>heap := (heap s)(brk s := zero_tWalletData), brk := Suc (brk s)\<rparr>)"

text \<open>\<^verbatim>\<open>ABC_CLEAR_FREE(pData, sizeof(tWalletData))\<close>: zero the struct, then free it.\<close>

definition ABC_CLEAR_FREE :: "addr \<Rightarrow> 'w state \<Rightarrow> 'w state" where
  "ABC_CLEAR_FREE pData s =
     (if pData \<noteq> NULL then s\<lparr>heap := (heap s)(pData := zero_tWalletData)\<rparr> else s)"

text \<open>
  \<^verbatim>\<open>ABC_ARRAY_NEW(ptr, count, type)\<close> is a \<^verbatim>\<open>calloc\<close>, \<^verbatim>\<open>ABC_ARRAY_RESIZE\<close> a \<^verbatim>\<open>realloc\<close>
  that keeps the elements that fit; the slots it adds are written before they are read.
\<close>

definition ABC_ARRAY_NEW :: "nat \<Rightarrow> addr list" where
  "ABC_ARRAY_NEW n = replicate n NULL"

definition ABC_ARRAY_RESIZE :: "addr list \<Rightarrow> nat \<Rightarrow> addr list" where
  "ABC_ARRAY_RESIZE a n = take n a @ replicate (n - length a) NULL"

subsection \<open>The cache\<close>

text \<open>
  The loop of \<^verbatim>\<open>ABC_WalletGetFromCacheByUUID\<close> (lines 305 to 314) over the array
  entries, first match wins; \<^verbatim>\<open>NULL\<close> when the loop ends without a match. \<^verbatim>\<open>strcmp\<close>
  against a struct whose \<^verbatim>\<open>szUUID\<close> is \<^verbatim>\<open>NULL\<close> is undefined in C; here it is no match.
\<close>

fun find_uuid :: "(addr \<Rightarrow> tWalletData) \<Rightarrow> string \<Rightarrow> addr list \<Rightarrow> addr" where
  "find_uuid h u [] = NULL"
| "find_uuid h u (pData # rest) =
     (if szUUID (h pData) = Some u then pData else find_uuid h u rest)"

text \<open>
  The entries the loops visit: indices \<open>0\<close> to \<^verbatim>\<open>gWalletsCacheCount - 1\<close> of the array,
  none when the count is zero or the array is \<^verbatim>\<open>NULL\<close> (the guard of lines 232 and 303).
\<close>

definition cache_ptrs :: "'w state \<Rightarrow> addr list" where
  "cache_ptrs s =
     (case gaWalletsCacheArray s of
        None \<Rightarrow> []
      | Some a \<Rightarrow> if gWalletsCacheCount s > 0 then take (gWalletsCacheCount s) a else [])"

text \<open>
  \<^verbatim>\<open>ABC_WalletGetFromCacheByUUID\<close> (lines 293 to 320). \<^verbatim>\<open>ppData\<close> is always the address of
  a local of the caller, so its \<^verbatim>\<open>NULL\<close> check never fires; the value stored through it is
  the result.
\<close>

definition ABC_WalletGetFromCacheByUUID :: "string option \<Rightarrow> 'w state \<Rightarrow> error + addr" where
  "ABC_WalletGetFromCacheByUUID szUUID_arg s =
     (case szUUID_arg of
        None \<Rightarrow> Inl ABC_CC_NULLPtr
      | Some u \<Rightarrow> Inr (find_uuid (heap s) u (cache_ptrs s)))"

text \<open>\<^verbatim>\<open>ABC_WalletAddToCache\<close> (lines 249 to 286).\<close>

definition ABC_WalletAddToCache :: "addr \<Rightarrow> 'w state \<Rightarrow> (error + unit) \<times> 'w state" where
  "ABC_WalletAddToCache pData s =
     (if pData = NULL then (Inl ABC_CC_NULLPtr, s)
      else
        case ABC_WalletGetFromCacheByUUID (szUUID (heap s pData)) s of
          Inl e \<Rightarrow> (Inl e, s)
        | Inr pExistingWalletData \<Rightarrow>
            if pExistingWalletData = NULL then
              let (n, a) =
                    (case gaWalletsCacheArray s of
                       None \<Rightarrow> (0, ABC_ARRAY_NEW 1)
                     | Some a \<Rightarrow>
                         if gWalletsCacheCount s = 0 then (0, ABC_ARRAY_NEW 1)
                         else (gWalletsCacheCount s, ABC_ARRAY_RESIZE a (gWalletsCacheCount s + 1)))
              in (Inr (), s\<lparr>gaWalletsCacheArray := Some (a[n := pData]),
                            gWalletsCacheCount := n + 1\<rparr>)
            else (Inl ABC_CC_WalletAlreadyExists, s))"

text \<open>
  \<^verbatim>\<open>ABC_WalletFreeData\<close> (lines 326 to 340): frees the UUID, the name and the two key
  buffers and resets the currency; the struct itself stays allocated, and so does
  \<^verbatim>\<open>szWalletAcctKey\<close>.
\<close>

definition ABC_WalletFreeData :: "addr \<Rightarrow> 'w state \<Rightarrow> 'w state" where
  "ABC_WalletFreeData pData s =
     (if pData \<noteq> NULL then
        s\<lparr>heap := (heap s)(pData := (heap s pData)
             \<lparr>szUUID := None, szName := None, currencyNum := - 1,
              MK := [], BitcoinPrivateSeed := []\<rparr>)\<rparr>
      else s)"

text \<open>\<^verbatim>\<open>ABC_WalletClearCache\<close> (lines 228 to 243).\<close>

definition ABC_WalletClearCache :: "'w state \<Rightarrow> 'w state" where
  "ABC_WalletClearCache s =
     (if gWalletsCacheCount s > 0 \<and> gaWalletsCacheArray s \<noteq> None then
        (fold ABC_WalletFreeData (cache_ptrs s) s)
          \<lparr>gaWalletsCacheArray := None, gWalletsCacheCount := 0\<rparr>
      else s)"

subsection \<open>Populating the cache\<close>

text \<open>
  Lines 151 to 203 of \<^verbatim>\<open>ABC_WalletCacheData\<close>: the new struct is filled from the
  account's wallet list and from the two files of the sync directory. Until
  \<^verbatim>\<open>ABC_WalletAddToCache\<close> the struct is reachable through the local \<^verbatim>\<open>pData\<close> only, so
  the model builds it as a value, field by field in the order of the source, and the
  caller below stores it into the allocated struct. Every \<^verbatim>\<open>ABC_CHECK_NEW\<close> and
  \<^verbatim>\<open>ABC_CHECK_RET\<close> of the source is one \<open>ABC_CHECK\<close> here.
\<close>

definition ABC_WalletCacheData_fill :: "'w Collaborators \<Rightarrow> Wallet \<Rightarrow> 'w \<Rightarrow> error + tWalletData" where
  "ABC_WalletCacheData_fill E self w =
     (let d = zero_tWalletData\<lparr>szUUID := Some (id_Wallet self)\<rparr> in
      ABC_CHECK (wallets_json E w (id_Wallet self)) (\<lambda>json.
      ABC_CHECK (ABC_JSON_STRING_Ok (dataKey json)) (\<lambda>dataKey_str.
      ABC_CHECK (base16Decode E dataKey_str) (\<lambda>dataKey_bytes.
      let d = d\<lparr>MK := dataKey_bytes\<rparr> in
      ABC_CHECK (ABC_JSON_STRING_Ok (bitcoinKey json)) (\<lambda>bitcoinKey_str.
      ABC_CHECK (base16Decode E bitcoinKey_str) (\<lambda>bitcoinKey_bytes.
      let d = d\<lparr>BitcoinPrivateSeed := bitcoinKey_bytes\<rparr> in
      ABC_CHECK (ABC_JSON_STRING_Ok (syncKey json)) (\<lambda>syncKey_str.
      let d = d\<lparr>szWalletAcctKey := Some syncKey_str\<rparr> in
      if \<not> fileExists E w (syncDir self) then
        Inr (d\<lparr>szName := Some [], currencyNum := - 1\<rparr>)
      else
        ABC_CHECK
          (if fileExists E w (syncDir self @ WALLET_NAME_FILENAME) then
             ABC_CHECK (ABC_CryptoDecryptJSONFile E w (syncDir self @ WALLET_NAME_FILENAME) (MK d))
               (\<lambda>Data.
             ABC_CHECK (ABC_UtilGetStringValueFromJSONString E Data JSON_WALLET_NAME_FIELD)
               (\<lambda>name. Inr (d\<lparr>szName := Some name\<rparr>)))
           else Inr (d\<lparr>szName := Some []\<rparr>))
          (\<lambda>d.
        if fileExists E w (syncDir self @ WALLET_CURRENCY_FILENAME) then
          ABC_CHECK (ABC_CryptoDecryptJSONFile E w (syncDir self @ WALLET_CURRENCY_FILENAME) (MK d))
            (\<lambda>Data.
          ABC_CHECK (ABC_UtilGetIntValueFromJSONString E Data JSON_WALLET_CURRENCY_NUM_FIELD)
            (\<lambda>num. Inr (d\<lparr>currencyNum := num\<rparr>)))
        else Inr (d\<lparr>currencyNum := - 1\<rparr>)))))))))"

text \<open>
  The \<^verbatim>\<open>exit:\<close> block of \<^verbatim>\<open>ABC_WalletCacheData\<close> (lines 215 to 220) when \<^verbatim>\<open>pData\<close> still
  belongs to the function: the struct is released and zeroed.
\<close>

definition ABC_WalletCacheData_exit :: "addr \<Rightarrow> 'w state \<Rightarrow> 'w state" where
  "ABC_WalletCacheData_exit pData s =
     (if pData \<noteq> NULL then ABC_CLEAR_FREE pData (ABC_WalletFreeData pData s) else s)"

text \<open>
  Lines 205 to 213 with the \<^verbatim>\<open>exit:\<close> block: the filled struct goes into the cache, and
  the pointer is handed out only when \<^verbatim>\<open>ABC_WalletAddToCache\<close> reports success.
\<close>

definition ABC_WalletCacheData_add :: "addr \<Rightarrow> 'w state \<Rightarrow> (error + addr) \<times> 'w state" where
  "ABC_WalletCacheData_add pData s =
     (case ABC_WalletAddToCache pData s of
        (Inl e, s') \<Rightarrow> (Inl e, ABC_WalletCacheData_exit pData s')
      | (Inr _, s') \<Rightarrow> (Inr pData, s'))"

text \<open>
  \<^verbatim>\<open>ABC_WalletCacheData\<close> (lines 124 to 223), the get-or-load of the cache. The result is
  the pointer stored through \<^verbatim>\<open>ppData\<close>. The lock of line 127 is held throughout; the
  model is sequential.
\<close>

definition ABC_WalletCacheData :: "'w Collaborators \<Rightarrow> Wallet \<Rightarrow> 'w state \<Rightarrow> (error + addr) \<times> 'w state" where
  "ABC_WalletCacheData E self s =
     (case ABC_WalletGetFromCacheByUUID (Some (id_Wallet self)) s of
        Inl e \<Rightarrow> (Inl e, s)
      | Inr pCached \<Rightarrow>
          if pCached \<noteq> NULL then (Inr pCached, s)
          else
            let (pData, s1) = ABC_NEW s in
            case ABC_WalletCacheData_fill E self (world s1) of
              Inl e \<Rightarrow> (Inl e, ABC_WalletCacheData_exit pData s1)
            | Inr d \<Rightarrow> ABC_WalletCacheData_add pData (s1\<lparr>heap := (heap s1)(pData := d)\<rparr>))"

subsection \<open>The operations on a wallet\<close>

text \<open>
  \<^verbatim>\<open>U08Buf((unsigned char *)szJSON, strlen(szJSON) + 1)\<close>: the bytes of the string and its
  terminating zero.
\<close>

definition U08Buf_of_str :: "string \<Rightarrow> byte list" where
  "U08Buf_of_str str = map of_char str @ [0]"

text \<open>
  \<^verbatim>\<open>ABC_WalletSetName\<close> (lines 88 to 117). The name is written through \<^verbatim>\<open>pData\<close>, the
  pointer into the cache, before the JSON is built and the file is written. The
  encryption type \<^verbatim>\<open>ABC_CryptoType_AES256\<close> is a constant of the call and is left out.
\<close>

definition ABC_WalletSetName :: "'w Collaborators \<Rightarrow> Wallet \<Rightarrow> string \<Rightarrow> 'w state \<Rightarrow> (error + unit) \<times> 'w state" where
  "ABC_WalletSetName E self szName_arg s =
     (case ABC_WalletCacheData E self s of
        (Inl e, s1) \<Rightarrow> (Inl e, s1)
      | (Inr pData, s1) \<Rightarrow>
          let s2 = s1\<lparr>heap := (heap s1)(pData := (heap s1 pData)\<lparr>szName := Some szName_arg\<rparr>)\<rparr> in
          case ABC_UtilCreateValueJSONString E szName_arg JSON_WALLET_NAME_FIELD of
            Inl e \<Rightarrow> (Inl e, s2)
          | Inr szJSON \<Rightarrow>
              let path = syncDir self @ WALLET_NAME_FILENAME in
              case ABC_CryptoEncryptJSONFile E (U08Buf_of_str szJSON) (MK (heap s2 pData)) path (world s2) of
                (cc, w') \<Rightarrow> (cc, s2\<lparr>world := w'\<rparr>))"

text \<open>
  \<^verbatim>\<open>ABC_WalletGetInfo\<close> (lines 351 to 389). \<open>ppWalletInfo\<close> is what the caller's pointer
  \<^verbatim>\<open>*ppWalletInfo\<close> holds before the call (\<open>None\<close> for \<^verbatim>\<open>NULL\<close>), and the second component
  of the result is what it holds after: the source assigns it at line 382 only. The
  struct \<^verbatim>\<open>pInfo\<close> is a local until then, and the \<^verbatim>\<open>exit:\<close> block frees it on failure.
\<close>

definition ABC_WalletGetInfo :: "'w Collaborators \<Rightarrow> Wallet \<Rightarrow> tABC_WalletInfo option \<Rightarrow> 'w state
    \<Rightarrow> (error + unit) \<times> tABC_WalletInfo option \<times> 'w state" where
  "ABC_WalletGetInfo E self ppWalletInfo s =
     (case ABC_WalletCacheData E self s of
        (Inl e, s1) \<Rightarrow> (Inl e, ppWalletInfo, s1)
      | (Inr pData, s1) \<Rightarrow>
          let pInfo = zero_tABC_WalletInfo\<lparr>info_szUUID := Some (id_Wallet self)\<rparr>;
              pInfo = (case szName (heap s1 pData) of
                         None \<Rightarrow> pInfo
                       | Some name \<Rightarrow> pInfo\<lparr>info_szName := Some name\<rparr>);
              pInfo = pInfo\<lparr>info_currencyNum := currencyNum (heap s1 pData)\<rparr>
          in
          case wallets_archived E (world s1) (id_Wallet self) of
            Inl e \<Rightarrow> (Inl e, ppWalletInfo, s1)
          | Inr archived \<Rightarrow>
              let pInfo = pInfo\<lparr>info_archived := archived\<rparr> in
              case balance E (world s1) self of
                Inl e \<Rightarrow> (Inl e, ppWalletInfo, s1)
              | Inr satoshi \<Rightarrow> (Inr (), Some (pInfo\<lparr>info_balanceSatoshi := satoshi\<rparr>), s1))"

subsection \<open>Sequences of operations\<close>

datatype op =
    GetOrLoad Wallet
  | SetName Wallet string
  | GetInfo Wallet
  | ClearCache

fun step :: "'w Collaborators \<Rightarrow> op \<Rightarrow> 'w state \<Rightarrow> 'w state" where
  "step E (GetOrLoad self) s = snd (ABC_WalletCacheData E self s)"
| "step E (SetName self name) s = snd (ABC_WalletSetName E self name s)"
| "step E (GetInfo self) s = snd (snd (ABC_WalletGetInfo E self None s))"
| "step E ClearCache s = ABC_WalletClearCache s"

definition run :: "'w Collaborators \<Rightarrow> op list \<Rightarrow> 'w state \<Rightarrow> 'w state" where
  "run E ops s = fold (step E) ops s"

text \<open>The records the cache holds, in the order of the array.\<close>

definition cache_records :: "'w state \<Rightarrow> tWalletData list" where
  "cache_records s = map (heap s) (cache_ptrs s)"

definition cache_uuids :: "'w state \<Rightarrow> string option list" where
  "cache_uuids s = map szUUID (cache_records s)"

text \<open>
  What a call of \<^verbatim>\<open>ABC_WalletCacheData\<close> hands to its caller, read through the pointer:
  the error, or the struct the returned pointer points to.
\<close>

definition loaded_record :: "(error + addr) \<times> 'w state \<Rightarrow> error + tWalletData" where
  "loaded_record r = (case r of (Inl e, s') \<Rightarrow> Inl e | (Inr pData, s') \<Rightarrow> Inr (heap s' pData))"

subsection \<open>The states the program reaches\<close>

text \<open>
  The invariant of the cache: the allocator never hands out \<^verbatim>\<open>NULL\<close>; either there is
  no array and the count is zero, or the array has \<^verbatim>\<open>gWalletsCacheCount\<close> slots, at
  least one; every cached pointer is an allocated,
  non-\<^verbatim>\<open>NULL\<close> address; every cached struct has a UUID; and no two cached structs have
  the same UUID.
\<close>

definition wf :: "'w state \<Rightarrow> bool" where
  "wf s \<longleftrightarrow>
     brk s \<noteq> NULL \<and>
     (gaWalletsCacheArray s = None \<and> gWalletsCacheCount s = 0 \<or>
      gWalletsCacheCount s > 0 \<and>
      map_option length (gaWalletsCacheArray s) = Some (gWalletsCacheCount s)) \<and>
     list_all (\<lambda>p. p \<noteq> NULL \<and> p < brk s) (cache_ptrs s) \<and>
     list_all (\<lambda>u. u \<noteq> None) (cache_uuids s) \<and>
     distinct (cache_uuids s)"

text \<open>What \<^verbatim>\<open>ABC_WalletFreeData\<close> leaves of a struct.\<close>

definition freed :: "tWalletData \<Rightarrow> tWalletData" where
  "freed d = d\<lparr>szUUID := None, szName := None, currencyNum := - 1, MK := [],
               BitcoinPrivateSeed := []\<rparr>"

subsection \<open>The specification's reading of the two metadata files\<close>

text \<open>
  Section 4.3, step 5 of the specification, for the name file: if the file exists, read
  and decrypt it with the master key and parse the field \<^verbatim>\<open>walletName\<close>, propagating
  any error; if it does not exist, the default \<^verbatim>\<open>""\<close>.
\<close>

definition spec_load_name :: "'w Collaborators \<Rightarrow> 'w \<Rightarrow> Wallet \<Rightarrow> tABC_U08Buf \<Rightarrow> error + string" where
  "spec_load_name E w self masterKey =
     (if fileExists E w (syncDir self @ ''WalletName.json'') then
        (case ABC_CryptoDecryptJSONFile E w (syncDir self @ ''WalletName.json'') masterKey of
           Inl e \<Rightarrow> Inl e
         | Inr plaintext \<Rightarrow> ABC_UtilGetStringValueFromJSONString E plaintext ''walletName'')
      else Inr [])"

text \<open>The same for the currency file and its field \<^verbatim>\<open>num\<close>, with the default \<open>-1\<close>.\<close>

definition spec_load_currency :: "'w Collaborators \<Rightarrow> 'w \<Rightarrow> Wallet \<Rightarrow> tABC_U08Buf \<Rightarrow> error + int" where
  "spec_load_currency E w self masterKey =
     (if fileExists E w (syncDir self @ ''Currency.json'') then
        (case ABC_CryptoDecryptJSONFile E w (syncDir self @ ''Currency.json'') masterKey of
           Inl e \<Rightarrow> Inl e
         | Inr plaintext \<Rightarrow> ABC_UtilGetIntValueFromJSONString E plaintext ''num'')
      else Inr (- 1))"

subsection \<open>A concrete set of collaborators\<close>

text \<open>
  The scenario of section 8 of the specification, for evaluating the operations on
  concrete inputs: the account knows the wallet \<^verbatim>\<open>W1\<close> with the keys \<^verbatim>\<open>AA11\<close>,
  \<^verbatim>\<open>BB22\<close> and \<^verbatim>\<open>sync1\<close> and no other wallet. The world is the list of the paths that
  exist on disk. Every file decrypts to its own path, the name in any plaintext is
  \<^verbatim>\<open>Savings\<close> and the currency number is 840. The disk is read-only, so every encrypted
  write fails; the archived flag is false and the balance is not available.
\<close>

definition demo_Collaborators :: "string list Collaborators" where
  "demo_Collaborators =
     \<lparr>wallets_json = (\<lambda>w uuid.
        if uuid = ''W1'' then
          Inr \<lparr>dataKey = Some ''AA11'', syncKey = Some ''sync1'', bitcoinKey = Some ''BB22''\<rparr>
        else Inl ABC_CC_InvalidWalletID),
      wallets_archived = (\<lambda>w uuid. Inr False),
      balance = (\<lambda>w self. Inl ABC_CC_Error),
      base16Decode = (\<lambda>hex.
        if hex = ''AA11'' then Inr [0xAA, 0x11]
        else if hex = ''BB22'' then Inr [0xBB, 0x22]
        else Inl ABC_CC_ParseError),
      fileExists = (\<lambda>w path. path \<in> set w),
      ABC_CryptoDecryptJSONFile = (\<lambda>w path key.
        if path \<in> set w then Inr (U08Buf_of_str path) else Inl ABC_CC_FileDoesNotExist),
      ABC_CryptoEncryptJSONFile = (\<lambda>data key path w. (Inl ABC_CC_EncryptError, w)),
      ABC_UtilGetStringValueFromJSONString = (\<lambda>data field. Inr ''Savings''),
      ABC_UtilGetIntValueFromJSONString = (\<lambda>data field. Inr 840),
      ABC_UtilCreateValueJSONString = (\<lambda>v field. Inr (field @ '':'' @ v))\<rparr>"

definition W1 :: Wallet where
  "W1 = \<lparr>id_Wallet = ''W1'', syncDir = ''/W1/''\<rparr>"

definition W2 :: Wallet where
  "W2 = \<lparr>id_Wallet = ''W2'', syncDir = ''/W2/''\<rparr>"

text \<open>
  The struct a load of \<^verbatim>\<open>W1\<close> builds while its sync directory does not exist, and the
  state after that load from the initial state on an empty disk.
\<close>

definition demo_record :: tWalletData where
  "demo_record =
     \<lparr>szUUID = Some ''W1'', szName = Some [], szWalletAcctKey = Some ''sync1'',
      currencyNum = - 1, MK = [0xAA, 0x11], BitcoinPrivateSeed = [0xBB, 0x22]\<rparr>"

definition demo_cached :: "string list state" where
  "demo_cached =
     \<lparr>heap = (\<lambda>_. zero_tWalletData)(1 := demo_record), brk = 2, gWalletsCacheCount = 1,
      gaWalletsCacheArray = Some [1], world = []\<rparr>"

section \<open>Properties\<close>

subsection \<open>The lookup and the steps of a load\<close>

lemma ABC_CHECK_Inr_iff: "ABC_CHECK m k = Inr y \<longleftrightarrow> (\<exists>x. m = Inr x \<and> k x = Inr y)"
  by (cases m) auto

lemma find_uuid_NULL_iff:
  "list_all (\<lambda>p. p \<noteq> NULL) ps \<Longrightarrow>
   find_uuid h u ps = NULL \<longleftrightarrow> Some u \<notin> set (map (\<lambda>p. szUUID (h p)) ps)"
  by (induction ps) auto

lemma find_uuid_heap_cong:
  "(\<And>p. p \<in> set ps \<Longrightarrow> szUUID (h' p) = szUUID (h p)) \<Longrightarrow> find_uuid h' u ps = find_uuid h u ps"
  by (induction ps) auto

lemma find_uuid_snoc:
  "find_uuid h u ps = NULL \<Longrightarrow> list_all (\<lambda>p. p \<noteq> NULL) ps \<Longrightarrow> szUUID (h q) = Some u \<Longrightarrow>
   find_uuid h u (ps @ [q]) = q"
  by (induction ps) (auto split: if_splits)

lemma fill_szUUID:
  "ABC_WalletCacheData_fill E self w = Inr d \<Longrightarrow> szUUID d = Some (id_Wallet self)"
  unfolding ABC_WalletCacheData_fill_def Let_def
  by (auto simp: ABC_CHECK_Inr_iff split: if_splits)

lemma cache_ptrs_frame [simp]:
  "cache_ptrs (s\<lparr>heap := h\<rparr>) = cache_ptrs s"
  "cache_ptrs (s\<lparr>brk := b\<rparr>) = cache_ptrs s"
  "cache_ptrs (s\<lparr>world := w\<rparr>) = cache_ptrs s"
  by (simp_all add: cache_ptrs_def split: option.splits)

lemma cache_ptrs_store [simp]:
  "cache_ptrs (s\<lparr>gaWalletsCacheArray := Some ps, gWalletsCacheCount := length ps\<rparr>) = ps"
  by (simp add: cache_ptrs_def)

lemma cache_records_frame [simp]:
  "cache_records (s\<lparr>brk := b\<rparr>) = cache_records s"
  "cache_records (s\<lparr>world := w\<rparr>) = cache_records s"
  by (simp_all add: cache_records_def)

lemma cache_ptrs_fresh: "wf s \<Longrightarrow> brk s \<notin> set (cache_ptrs s)"
  by (auto simp: wf_def list_all_iff)

lemma ABC_ARRAY_RESIZE_store:
  "length a = n \<Longrightarrow> (ABC_ARRAY_RESIZE a (Suc n))[n := p] = a @ [p]"
  by (auto simp: ABC_ARRAY_RESIZE_def)

lemma AddToCache_fresh:
  assumes "wf s" "pData \<noteq> NULL" "szUUID (heap s pData) = Some u"
    and "find_uuid (heap s) u (cache_ptrs s) = NULL"
  shows "ABC_WalletAddToCache pData s =
     (Inr (), s\<lparr>gaWalletsCacheArray := Some (cache_ptrs s @ [pData]),
                 gWalletsCacheCount := Suc (length (cache_ptrs s))\<rparr>)"
  using assms
  by (auto simp: ABC_WalletAddToCache_def ABC_WalletGetFromCacheByUUID_def wf_def cache_ptrs_def
      ABC_ARRAY_NEW_def ABC_ARRAY_RESIZE_store split: option.splits)

lemma CacheData_cached:
  "find_uuid (heap s) (id_Wallet self) (cache_ptrs s) = p \<Longrightarrow> p \<noteq> NULL \<Longrightarrow>
   ABC_WalletCacheData E self s = (Inr p, s)"
  by (simp add: ABC_WalletCacheData_def ABC_WalletGetFromCacheByUUID_def)

lemma CacheData_fail:
  "find_uuid (heap s) (id_Wallet self) (cache_ptrs s) = NULL \<Longrightarrow>
   ABC_WalletCacheData_fill E self (world s) = Inl e \<Longrightarrow> brk s \<noteq> NULL \<Longrightarrow>
   ABC_WalletCacheData E self s =
     (Inl e, s\<lparr>heap := (heap s)(brk s := zero_tWalletData), brk := Suc (brk s)\<rparr>)"
  by (simp add: ABC_WalletCacheData_def ABC_WalletGetFromCacheByUUID_def ABC_NEW_def
      ABC_WalletCacheData_exit_def ABC_CLEAR_FREE_def ABC_WalletFreeData_def)

lemma wf_alloc:
  assumes "wf s"
  shows "wf (s\<lparr>heap := (heap s)(brk s := d), brk := Suc (brk s)\<rparr>)"
proof -
  have fresh: "brk s \<notin> set (cache_ptrs s)" using assms by (rule cache_ptrs_fresh)
  have "cache_uuids (s\<lparr>heap := (heap s)(brk s := d), brk := Suc (brk s)\<rparr>) = cache_uuids s"
    using fresh by (simp add: cache_uuids_def cache_records_def)
  then show ?thesis using assms by (auto simp: wf_def list_all_iff)
qed

lemma CacheData_ok:
  assumes "wf s"
    and "find_uuid (heap s) (id_Wallet self) (cache_ptrs s) = NULL"
    and "ABC_WalletCacheData_fill E self (world s) = Inr d"
  shows "ABC_WalletCacheData E self s =
     (Inr (brk s),
      s\<lparr>heap := (heap s)(brk s := d), brk := Suc (brk s),
        gaWalletsCacheArray := Some (cache_ptrs s @ [brk s]),
        gWalletsCacheCount := Suc (length (cache_ptrs s))\<rparr>)"
proof -
  let ?s1 = "s\<lparr>heap := (heap s)(brk s := d), brk := Suc (brk s)\<rparr>"
  have fresh: "brk s \<notin> set (cache_ptrs s)" using assms(1) by (rule cache_ptrs_fresh)
  have wf1: "wf ?s1" using assms(1) by (rule wf_alloc)
  have uu: "szUUID (heap ?s1 (brk s)) = Some (id_Wallet self)"
    using fill_szUUID[OF assms(3)] by simp
  have "find_uuid ((heap s)(brk s := d)) (id_Wallet self) (cache_ptrs s)
      = find_uuid (heap s) (id_Wallet self) (cache_ptrs s)"
    using fresh by (intro find_uuid_heap_cong) auto
  then have nf: "find_uuid (heap ?s1) (id_Wallet self) (cache_ptrs ?s1) = NULL"
    using assms(2) by simp
  have b0: "brk s \<noteq> NULL" using assms(1) by (simp add: wf_def)
  have add: "ABC_WalletAddToCache (brk s) ?s1 =
     (Inr (), ?s1\<lparr>gaWalletsCacheArray := Some (cache_ptrs ?s1 @ [brk s]),
                 gWalletsCacheCount := Suc (length (cache_ptrs ?s1))\<rparr>)"
    by (rule AddToCache_fresh[OF wf1 b0 uu nf])
  have st: "(snd (ABC_NEW s))\<lparr>heap := (heap (snd (ABC_NEW s)))(brk s := d)\<rparr> = ?s1"
    by (simp add: ABC_NEW_def)
  have new: "ABC_NEW s = (brk s, snd (ABC_NEW s))" "world (snd (ABC_NEW s)) = world s"
    by (simp_all add: ABC_NEW_def)
  have "ABC_WalletCacheData E self s = ABC_WalletCacheData_add (brk s) ?s1"
    unfolding ABC_WalletCacheData_def ABC_WalletGetFromCacheByUUID_def
    using assms(2,3) by (subst new(1)) (simp add: new(2) st)
  then show ?thesis
    by (simp add: ABC_WalletCacheData_add_def add)
qed


lemma W1_sel [simp]: "id_Wallet W1 = ''W1''" "syncDir W1 = ''/W1/''"
  by (simp_all add: W1_def)

lemma W2_sel [simp]: "id_Wallet W2 = ''W2''" "syncDir W2 = ''/W2/''"
  by (simp_all add: W2_def)

lemma demo_fill_W1: "ABC_WalletCacheData_fill demo_Collaborators W1 [] = Inr demo_record"
  by (simp add: ABC_WalletCacheData_fill_def demo_Collaborators_def
      ABC_JSON_STRING_Ok_def zero_tWalletData_def demo_record_def)

lemma wf_init: "wf (init w)"
  by (simp add: wf_def init_def cache_uuids_def cache_records_def cache_ptrs_def)

lemma demo_load_W1:
  "ABC_WalletCacheData demo_Collaborators W1 (init []) = (Inr 1, demo_cached)"
proof -
  have nf: "find_uuid (heap (init [])) (id_Wallet W1) (cache_ptrs (init ([]::string list))) = NULL"
    by (simp add: init_def cache_ptrs_def)
  have fill: "ABC_WalletCacheData_fill demo_Collaborators W1 (world (init [])) = Inr demo_record"
    using demo_fill_W1 by (simp add: init_def)
  show ?thesis
    unfolding CacheData_ok[OF wf_init nf fill]
    by (simp add: init_def cache_ptrs_def demo_cached_def)
qed

lemma demo_cached_sel [simp]:
  "cache_ptrs demo_cached = [1]"
  "heap demo_cached 1 = demo_record"
  "heap demo_cached (Suc 0) = demo_record"
  "brk demo_cached = 2"
  "world demo_cached = []"
  by (simp_all add: demo_cached_def cache_ptrs_def)

lemma demo_record_sel [simp]:
  "szUUID demo_record = Some ''W1''"
  "szName demo_record = Some []"
  "currencyNum demo_record = - 1"
  "MK demo_record = [0xAA, 0x11]"
  by (simp_all add: demo_record_def)

lemma wf_demo_cached: "wf demo_cached"
  by (simp add: wf_def cache_uuids_def cache_records_def) (simp add: demo_cached_def)

subsection \<open>The invariant is kept\<close>

lemma cache_ptrs_append_store [simp]:
  "cache_ptrs (s\<lparr>gaWalletsCacheArray := Some (ps @ [p]), gWalletsCacheCount := Suc (length ps)\<rparr>)
     = ps @ [p]"
  by (simp add: cache_ptrs_def)

lemma find_uuid_heap_fresh:
  "q \<notin> set ps \<Longrightarrow> find_uuid (h(q := d)) u ps = find_uuid h u ps"
  by (rule find_uuid_heap_cong) auto

lemma cache_uuids_not_found:
  assumes "wf s" and "find_uuid (heap s) u (cache_ptrs s) = NULL"
  shows "Some u \<notin> set (cache_uuids s)"
proof -
  have "list_all (\<lambda>p. p \<noteq> NULL) (cache_ptrs s)"
    using assms(1) by (auto simp: wf_def list_all_iff)
  from find_uuid_NULL_iff[OF this, of "heap s" u] assms(2)
  show ?thesis by (simp add: cache_uuids_def cache_records_def comp_def)
qed

lemma wf_load:
  assumes "wf s"
    and "find_uuid (heap s) u (cache_ptrs s) = NULL"
    and "szUUID d = Some u"
  shows "wf (s\<lparr>heap := (heap s)(brk s := d), brk := Suc (brk s),
        gaWalletsCacheArray := Some (cache_ptrs s @ [brk s]),
        gWalletsCacheCount := Suc (length (cache_ptrs s))\<rparr>)"
    (is "wf ?s'")
proof -
  have fresh: "brk s \<notin> set (cache_ptrs s)" using assms(1) by (rule cache_ptrs_fresh)
  have ptrs: "cache_ptrs ?s' = cache_ptrs s @ [brk s]" by (simp add: cache_ptrs_def)
  have uuids: "cache_uuids ?s' = cache_uuids s @ [Some u]"
    using fresh assms(3) by (simp add: cache_uuids_def cache_records_def ptrs)
  have nf: "Some u \<notin> set (cache_uuids s)"
    using assms(1,2) by (rule cache_uuids_not_found)
  show ?thesis
    unfolding wf_def ptrs uuids using assms(1) nf
    by (auto simp: wf_def list_all_iff)
qed

lemma CacheData_cases [consumes 1, case_names hit fail load]:
  assumes "wf s"
  obtains
    (hit) p where "p \<noteq> NULL" "find_uuid (heap s) (id_Wallet self) (cache_ptrs s) = p"
      "ABC_WalletCacheData E self s = (Inr p, s)"
  | (fail) e where "find_uuid (heap s) (id_Wallet self) (cache_ptrs s) = NULL"
      "ABC_WalletCacheData_fill E self (world s) = Inl e"
      "ABC_WalletCacheData E self s =
         (Inl e, s\<lparr>heap := (heap s)(brk s := zero_tWalletData), brk := Suc (brk s)\<rparr>)"
  | (load) d where "find_uuid (heap s) (id_Wallet self) (cache_ptrs s) = NULL"
      "ABC_WalletCacheData_fill E self (world s) = Inr d"
      "ABC_WalletCacheData E self s =
         (Inr (brk s),
          s\<lparr>heap := (heap s)(brk s := d), brk := Suc (brk s),
            gaWalletsCacheArray := Some (cache_ptrs s @ [brk s]),
            gWalletsCacheCount := Suc (length (cache_ptrs s))\<rparr>)"
proof (cases "find_uuid (heap s) (id_Wallet self) (cache_ptrs s) = NULL")
  case False
  then show ?thesis using hit CacheData_cached by blast
next
  case nf: True
  have b0: "brk s \<noteq> NULL" using assms by (simp add: wf_def)
  show ?thesis
  proof (cases "ABC_WalletCacheData_fill E self (world s)")
    case (Inl e)
    then show ?thesis using fail nf CacheData_fail[OF nf Inl b0] by blast
  next
    case (Inr d)
    then show ?thesis using load nf CacheData_ok[OF assms nf Inr] by blast
  qed
qed

lemma wf_CacheData:
  assumes "wf s"
  shows "wf (snd (ABC_WalletCacheData E self s))"
  using assms
proof (cases rule: CacheData_cases[where self = self and E = E])
  case (hit p)
  then show ?thesis using assms by simp
next
  case (fail e)
  then show ?thesis using wf_alloc[OF assms] by simp
next
  case (load d)
  then show ?thesis using wf_load[OF assms load(1) fill_szUUID[OF load(2)]] by simp
qed

text \<open>A successful call returns the pointer the lookup now finds for the identity.\<close>

lemma CacheData_returns_cached:
  assumes "wf s" and "ABC_WalletCacheData E self s = (Inr p, s1)"
  shows "p \<noteq> NULL \<and> find_uuid (heap s1) (id_Wallet self) (cache_ptrs s1) = p"
  using assms(1)
proof (cases rule: CacheData_cases[where self = self and E = E])
  case (hit q)
  then show ?thesis using assms(2) by auto
next
  case (fail e)
  then show ?thesis using assms(2) by simp
next
  case (load d)
  have fresh: "brk s \<notin> set (cache_ptrs s)" using assms(1) by (rule cache_ptrs_fresh)
  have nn: "list_all (\<lambda>p. p \<noteq> NULL) (cache_ptrs s)"
    using assms(1) by (auto simp: wf_def list_all_iff)
  have "find_uuid ((heap s)(brk s := d)) (id_Wallet self) (cache_ptrs s) = NULL"
    using fresh load(1) by (simp add: find_uuid_heap_fresh)
  then have "find_uuid ((heap s)(brk s := d)) (id_Wallet self) (cache_ptrs s @ [brk s]) = brk s"
    using nn fill_szUUID[OF load(2)] by (intro find_uuid_snoc) auto
  moreover have "brk s \<noteq> NULL" using assms(1) by (simp add: wf_def)
  ultimately show ?thesis using assms(2) load(3) by auto
qed

lemma cache_uuids_set_name [simp]:
  "cache_uuids (s\<lparr>heap := (heap s)(p := (heap s p)\<lparr>szName := n\<rparr>)\<rparr>) = cache_uuids s"
  by (simp add: cache_uuids_def cache_records_def)

lemma find_uuid_set_name [simp]:
  "find_uuid ((h)(p := (h p)\<lparr>szName := n\<rparr>)) u ps = find_uuid h u ps"
  by (rule find_uuid_heap_cong) simp

lemma wf_set_name:
  "wf s \<Longrightarrow> wf (s\<lparr>heap := (heap s)(p := (heap s p)\<lparr>szName := n\<rparr>)\<rparr>)"
  by (simp add: wf_def)

lemma wf_world: "wf s \<Longrightarrow> wf (s\<lparr>world := w\<rparr>)"
  by (simp add: wf_def cache_uuids_def)

lemma wf_SetName:
  assumes "wf s"
  shows "wf (snd (ABC_WalletSetName E self name s))"
proof -
  have wf1: "wf (snd (ABC_WalletCacheData E self s))" using assms by (rule wf_CacheData)
  show ?thesis
    using wf1
    by (auto simp: ABC_WalletSetName_def Let_def wf_set_name wf_world
        split: prod.splits sum.splits)
qed

lemma wf_GetInfo:
  assumes "wf s"
  shows "wf (snd (snd (ABC_WalletGetInfo E self out s)))"
  using wf_CacheData[OF assms, of E self]
  by (auto simp: ABC_WalletGetInfo_def Let_def split: prod.splits sum.splits)

lemma fold_FreeData_frame:
  "brk (fold ABC_WalletFreeData ps s) = brk s"
  "world (fold ABC_WalletFreeData ps s) = world s"
  "gaWalletsCacheArray (fold ABC_WalletFreeData ps s) = gaWalletsCacheArray s"
  "gWalletsCacheCount (fold ABC_WalletFreeData ps s) = gWalletsCacheCount s"
  by (induction ps arbitrary: s; simp add: ABC_WalletFreeData_def)+

lemma fold_FreeData_heap:
  "heap (fold ABC_WalletFreeData ps s) q =
     (if q \<in> set ps \<and> q \<noteq> NULL then freed (heap s q) else heap s q)"
  by (induction ps arbitrary: s) (auto simp: ABC_WalletFreeData_def freed_def)

lemma ClearCache_empty:
  "cache_ptrs (ABC_WalletClearCache s) = []"
  by (auto simp: ABC_WalletClearCache_def cache_ptrs_def split: option.splits)

lemma ClearCache_frame:
  "brk (ABC_WalletClearCache s) = brk s"
  "world (ABC_WalletClearCache s) = world s"
  by (simp_all add: ABC_WalletClearCache_def fold_FreeData_frame)

lemma ClearCache_globals:
  "wf s \<Longrightarrow> gaWalletsCacheArray (ABC_WalletClearCache s) = None"
  "wf s \<Longrightarrow> gWalletsCacheCount (ABC_WalletClearCache s) = 0"
  by (auto simp: ABC_WalletClearCache_def wf_def)

lemma wf_ClearCache:
  assumes "wf s"
  shows "wf (ABC_WalletClearCache s)"
  using assms ClearCache_globals[OF assms]
  by (simp add: wf_def ClearCache_empty ClearCache_frame cache_uuids_def cache_records_def)

lemma wf_step: "wf s \<Longrightarrow> wf (step E op s)"
  by (cases op) (simp_all add: wf_CacheData wf_SetName wf_GetInfo wf_ClearCache)

lemma wf_run: "wf s \<Longrightarrow> wf (run E ops s)"
  unfolding run_def by (induction ops arbitrary: s) (simp_all add: wf_step)

subsection \<open>What a load returns\<close>

lemma lookup_NULL_iff:
  "ABC_WalletGetFromCacheByUUID (Some u) s = Inr p \<longleftrightarrow> find_uuid (heap s) u (cache_ptrs s) = p"
  by (simp add: ABC_WalletGetFromCacheByUUID_def)

lemma fill_key_material:
  assumes "wallets_json E w (id_Wallet self) = Inr json"
    and "dataKey json = Some dk" and "base16Decode E dk = Inr mk"
    and "bitcoinKey json = Some bk" and "base16Decode E bk = Inr seed"
    and "syncKey json = Some sk"
  shows "ABC_WalletCacheData_fill E self w =
     (if \<not> fileExists E w (syncDir self) then
        Inr \<lparr>szUUID = Some (id_Wallet self), szName = Some [], szWalletAcctKey = Some sk,
             currencyNum = - 1, MK = mk, BitcoinPrivateSeed = seed\<rparr>
      else
        case spec_load_name E w self mk of
          Inl e \<Rightarrow> Inl e
        | Inr name \<Rightarrow>
            (case spec_load_currency E w self mk of
               Inl e \<Rightarrow> Inl e
             | Inr num \<Rightarrow>
                 Inr \<lparr>szUUID = Some (id_Wallet self), szName = Some name,
                      szWalletAcctKey = Some sk, currencyNum = num, MK = mk,
                      BitcoinPrivateSeed = seed\<rparr>))"
  using assms
  by (simp add: ABC_WalletCacheData_fill_def ABC_JSON_STRING_Ok_def zero_tWalletData_def
      spec_load_name_def spec_load_currency_def WALLET_NAME_FILENAME_def
      WALLET_CURRENCY_FILENAME_def JSON_WALLET_NAME_FIELD_def JSON_WALLET_CURRENCY_NUM_FIELD_def
      split: sum.splits)

lemma loaded_record_CacheData:
  assumes "wf s"
    and "find_uuid (heap s) (id_Wallet self) (cache_ptrs s) = NULL"
  shows "loaded_record (ABC_WalletCacheData E self s) = ABC_WalletCacheData_fill E self (world s)"
  using assms(1)
proof (cases rule: CacheData_cases[where self = self and E = E])
  case (hit p)
  then show ?thesis using assms(2) by simp
next
  case (fail e)
  then show ?thesis by (simp add: loaded_record_def)
next
  case (load d)
  then show ?thesis by (simp add: loaded_record_def)
qed

lemma demo_fill_W2:
  "ABC_WalletCacheData_fill demo_Collaborators W2 w = Inl ABC_CC_InvalidWalletID"
  by (simp add: ABC_WalletCacheData_fill_def demo_Collaborators_def)

subsection \<open>Failing steps, the allocator and the clearing of the cache\<close>

lemma JSON_STRING_Ok_simps [simp]:
  "ABC_JSON_STRING_Ok None = Inl ABC_CC_JSONError"
  "ABC_JSON_STRING_Ok (Some v) = Inr v"
  by (simp_all add: ABC_JSON_STRING_Ok_def)

text \<open>
  When the population fails, its error is the error of the first step that fails: the
  lookup in the wallet list, one of the three fields, one of the two decodings, or, when
  the sync directory exists, the reading of the name file or of the currency file.
\<close>

lemma fill_Inl_iff:
  "ABC_WalletCacheData_fill E self w = Inl e \<longleftrightarrow>
     wallets_json E w (id_Wallet self) = Inl e
   \<or> (\<exists>json. wallets_json E w (id_Wallet self) = Inr json \<and>
        (ABC_JSON_STRING_Ok (dataKey json) = Inl e
       \<or> (\<exists>dk. dataKey json = Some dk \<and>
            (base16Decode E dk = Inl e
           \<or> (\<exists>mk. base16Decode E dk = Inr mk \<and>
                (ABC_JSON_STRING_Ok (bitcoinKey json) = Inl e
               \<or> (\<exists>bk. bitcoinKey json = Some bk \<and>
                    (base16Decode E bk = Inl e
                   \<or> (\<exists>seed. base16Decode E bk = Inr seed \<and>
                        (ABC_JSON_STRING_Ok (syncKey json) = Inl e
                       \<or> (\<exists>sk. syncKey json = Some sk \<and>
                            fileExists E w (syncDir self) \<and>
                            (spec_load_name E w self mk = Inl e
                           \<or> (\<exists>name. spec_load_name E w self mk = Inr name \<and>
                                spec_load_currency E w self mk = Inl e)))))))))))))"
proof (cases "wallets_json E w (id_Wallet self)")
  case (Inl e')
  then show ?thesis by (simp add: ABC_WalletCacheData_fill_def)
next
  case json: (Inr json)
  show ?thesis
  proof (cases "dataKey json")
    case None
    then show ?thesis using json by (simp add: ABC_WalletCacheData_fill_def)
  next
    case dk: (Some dk)
    show ?thesis
    proof (cases "base16Decode E dk")
      case (Inl e')
      then show ?thesis using json dk by (simp add: ABC_WalletCacheData_fill_def)
    next
      case mk: (Inr mk)
      show ?thesis
      proof (cases "bitcoinKey json")
        case None
        then show ?thesis using json dk mk by (simp add: ABC_WalletCacheData_fill_def)
      next
        case bk: (Some bk)
        show ?thesis
        proof (cases "base16Decode E bk")
          case (Inl e')
          then show ?thesis using json dk mk bk by (simp add: ABC_WalletCacheData_fill_def)
        next
          case seed: (Inr seed)
          show ?thesis
          proof (cases "syncKey json")
            case None
            then show ?thesis
              using json dk mk bk seed by (simp add: ABC_WalletCacheData_fill_def)
          next
            case (Some sk)
            show ?thesis
              unfolding fill_key_material[OF json dk mk bk seed Some]
              using json dk mk bk seed Some
              by (simp split: sum.splits)
          qed
        qed
      qed
    qed
  qed
qed

lemma brk_CacheData:
  assumes "wf s"
  shows "brk s \<le> brk (snd (ABC_WalletCacheData E self s))"
  using assms
proof (cases rule: CacheData_cases[where self = self and E = E])
  case (hit p)
  then show ?thesis by simp
next
  case (fail e)
  then show ?thesis by simp
next
  case (load d)
  then show ?thesis by simp
qed

lemma brk_step:
  assumes "wf s"
  shows "brk s \<le> brk (step E op s)"
proof (cases op)
  case (GetOrLoad self)
  then show ?thesis using brk_CacheData[OF assms] by simp
next
  case (SetName self name)
  then show ?thesis
    using brk_CacheData[OF assms, of E self]
    by (auto simp: ABC_WalletSetName_def Let_def split: prod.splits sum.splits)
next
  case (GetInfo self)
  then show ?thesis
    using brk_CacheData[OF assms, of E self]
    by (auto simp: ABC_WalletGetInfo_def Let_def split: prod.splits sum.splits)
next
  case ClearCache
  then show ?thesis by (simp add: ClearCache_frame)
qed

lemma brk_run: "wf s \<Longrightarrow> brk s \<le> brk (run E ops s)"
proof (induction ops arbitrary: s)
  case Nil
  then show ?case by (simp add: run_def)
next
  case (Cons op ops)
  have "brk s \<le> brk (step E op s)" using Cons.prems by (rule brk_step)
  also have "\<dots> \<le> brk (run E ops (step E op s))"
    using Cons.IH[OF wf_step[OF Cons.prems]] .
  finally show ?case by (simp add: run_def)
qed

lemma ClearCache_destroys:
  assumes "wf s"
  shows "list_all (\<lambda>q. heap (ABC_WalletClearCache s) q = freed (heap s q)) (cache_ptrs s)"
proof (cases "gWalletsCacheCount s > 0 \<and> gaWalletsCacheArray s \<noteq> None")
  case True
  have nn: "\<forall>q\<in>set (cache_ptrs s). q \<noteq> NULL"
    using assms by (auto simp: wf_def list_all_iff)
  show ?thesis
    using True nn by (simp add: ABC_WalletClearCache_def list_all_iff fold_FreeData_heap)
next
  case False
  then have "cache_ptrs s = []" by (auto simp: cache_ptrs_def split: option.splits)
  then show ?thesis by simp
qed

lemma demo_run:
  "run demo_Collaborators [SetName W1 ''Savings'', GetInfo W1] demo_cached =
     demo_cached\<lparr>heap := (heap demo_cached)(Suc 0 := demo_record\<lparr>szName := Some ''Savings''\<rparr>)\<rparr>"
proof -
  let ?s = "demo_cached\<lparr>heap := (heap demo_cached)(Suc 0 := demo_record\<lparr>szName := Some ''Savings''\<rparr>)\<rparr>"
  have h: "ABC_WalletCacheData demo_Collaborators W1 demo_cached = (Inr 1, demo_cached)"
    by (rule CacheData_cached) simp_all
  have 1: "ABC_WalletSetName demo_Collaborators W1 ''Savings'' demo_cached =
      (Inl ABC_CC_EncryptError, ?s)"
    by (simp add: ABC_WalletSetName_def h) (simp add: demo_Collaborators_def demo_cached_def)
  have h2: "ABC_WalletCacheData demo_Collaborators W1 ?s = (Inr (Suc 0), ?s)"
    by (rule CacheData_cached) simp_all
  have 2: "snd (snd (ABC_WalletGetInfo demo_Collaborators W1 None ?s)) = ?s"
    by (simp add: ABC_WalletGetInfo_def h2 Let_def split: sum.splits)
  show ?thesis by (simp add: run_def 1 2)
qed

subsection \<open>The insertion into the cache\<close>





text \<open>
  Inside \<^verbatim>\<open>ABC_WalletCacheData\<close> the insertion of line 206 follows the lookup of line 134,
  which found no entry, so it never reports \<^verbatim>\<open>ABC_CC_WalletAlreadyExists\<close>: an error of
  the whole call is an error of the population.
\<close>

lemma CacheData_error_from_fill:
  assumes "wf s" and "fst (ABC_WalletCacheData E self s) = Inl e"
  shows "ABC_WalletCacheData_fill E self (world s) = Inl e"
  using assms(1)
proof (cases rule: CacheData_cases[where self = self and E = E])
  case (hit p)
  then show ?thesis using assms(2) by simp
next
  case (fail e')
  then show ?thesis using assms(2) by simp
next
  case (load d)
  then show ?thesis using assms(2) by simp
qed

subsection \<open>The claims\<close>

text \<open>
  C1: for every wallet identity that is not in the cache, if the population of the new
  record fails with the error \<open>e\<close> (whichever step of \<open>ABC_WalletCacheData_fill\<close> it is:
  the lookup of the key material, a missing field, the hex decoding, the decryption of a
  file or the parsing of its JSON), then \<^verbatim>\<open>ABC_WalletCacheData\<close> returns \<open>e\<close> and the
  cache is as before: the array, the count, the cached records and the world are
  unchanged, the identity still has no entry, and the invariant holds again, so a later
  call populates from scratch. The lemma \<open>fill_Inl_iff\<close> above lists the failing steps.
\<close>

theorem C1_failed_load_leaves_cache:
  assumes "wf s"
    and "ABC_WalletGetFromCacheByUUID (Some (id_Wallet self)) s = Inr NULL"
    and "ABC_WalletCacheData_fill E self (world s) = Inl e"
  shows "\<exists>s'. ABC_WalletCacheData E self s = (Inl e, s')
      \<and> gaWalletsCacheArray s' = gaWalletsCacheArray s
      \<and> gWalletsCacheCount s' = gWalletsCacheCount s
      \<and> cache_records s' = cache_records s
      \<and> world s' = world s
      \<and> ABC_WalletGetFromCacheByUUID (Some (id_Wallet self)) s' = Inr NULL
      \<and> wf s'"
proof -
  let ?s' = "s\<lparr>heap := (heap s)(brk s := zero_tWalletData), brk := Suc (brk s)\<rparr>"
  have nf: "find_uuid (heap s) (id_Wallet self) (cache_ptrs s) = NULL"
    using assms(2) by (simp add: lookup_NULL_iff)
  have b0: "brk s \<noteq> NULL" using assms(1) by (simp add: wf_def)
  have fresh: "brk s \<notin> set (cache_ptrs s)" using assms(1) by (rule cache_ptrs_fresh)
  have run: "ABC_WalletCacheData E self s = (Inl e, ?s')"
    using nf assms(3) b0 by (rule CacheData_fail)
  have recs: "cache_records ?s' = cache_records s"
    using fresh by (simp add: cache_records_def)
  have look: "ABC_WalletGetFromCacheByUUID (Some (id_Wallet self)) ?s' = Inr NULL"
    using fresh nf by (simp add: lookup_NULL_iff find_uuid_heap_fresh)
  have "wf ?s'" using assms(1) by (rule wf_alloc)
  with run recs look show ?thesis by simp
qed

theorem C1_failed_load_leaves_cache_witness:
  "wf demo_cached
   \<and> ABC_WalletGetFromCacheByUUID (Some (id_Wallet W2)) demo_cached = Inr NULL
   \<and> ABC_WalletCacheData_fill demo_Collaborators W2 (world demo_cached) =
       Inl ABC_CC_InvalidWalletID
   \<and> fst (ABC_WalletCacheData demo_Collaborators W2 demo_cached) = Inl ABC_CC_InvalidWalletID
   \<and> cache_records (snd (ABC_WalletCacheData demo_Collaborators W2 demo_cached)) = [demo_record]"
proof -
  have l: "ABC_WalletGetFromCacheByUUID (Some (id_Wallet W2)) demo_cached = Inr NULL"
    by (simp add: ABC_WalletGetFromCacheByUUID_def)
  have f: "ABC_WalletCacheData_fill demo_Collaborators W2 (world demo_cached) =
      Inl ABC_CC_InvalidWalletID"
    by (rule demo_fill_W2)
  have r: "cache_records demo_cached = [demo_record]"
    by (simp add: cache_records_def)
  from C1_failed_load_leaves_cache[OF wf_demo_cached l f] wf_demo_cached l f r
  show ?thesis by auto
qed



text \<open>
  C3: for every wallet and new name, if \<^verbatim>\<open>ABC_WalletSetName\<close> gets the record, builds the
  JSON and then fails with \<open>e\<close> at \<^verbatim>\<open>ABC_CryptoEncryptJSONFile\<close>, it returns \<open>e\<close> and the
  final state is the state after the load with the name of the cached record already
  set to the new name and the world as the failed write left it: nothing is rolled back,
  and the record the cache holds for the identity carries the new name.
\<close>

theorem C3_failed_write_keeps_new_name:
  assumes "wf s"
    and "ABC_WalletCacheData E self s = (Inr pData, s1)"
    and "ABC_UtilCreateValueJSONString E name JSON_WALLET_NAME_FIELD = Inr szJSON"
    and "ABC_CryptoEncryptJSONFile E (U08Buf_of_str szJSON) (MK (heap s1 pData))
           (syncDir self @ WALLET_NAME_FILENAME) (world s1) = (Inl e, w')"
  shows "\<exists>s'. ABC_WalletSetName E self name s = (Inl e, s')
      \<and> s' = s1\<lparr>heap := (heap s1)(pData := (heap s1 pData)\<lparr>szName := Some name\<rparr>), world := w'\<rparr>
      \<and> pData \<noteq> NULL
      \<and> ABC_WalletGetFromCacheByUUID (Some (id_Wallet self)) s' = Inr pData
      \<and> szName (heap s' pData) = Some name"
proof -
  have c: "pData \<noteq> NULL \<and> find_uuid (heap s1) (id_Wallet self) (cache_ptrs s1) = pData"
    using assms(1,2) by (rule CacheData_returns_cached)
  show ?thesis
    using assms(2-4) c
    by (simp add: ABC_WalletSetName_def ABC_WalletGetFromCacheByUUID_def)
qed

theorem C3_failed_write_keeps_new_name_witness:
  "wf (init ([]::string list))
   \<and> ABC_WalletCacheData demo_Collaborators W1 (init []) = (Inr 1, demo_cached)
   \<and> fst (ABC_WalletSetName demo_Collaborators W1 ''Savings'' (init [])) = Inl ABC_CC_EncryptError
   \<and> szName (heap (snd (ABC_WalletSetName demo_Collaborators W1 ''Savings'' (init []))) 1) =
       Some ''Savings''
   \<and> ABC_WalletGetFromCacheByUUID (Some (id_Wallet W1))
       (snd (ABC_WalletSetName demo_Collaborators W1 ''Savings'' (init []))) = Inr 1"
proof -
  have j: "ABC_UtilCreateValueJSONString demo_Collaborators ''Savings'' JSON_WALLET_NAME_FIELD =
      Inr (JSON_WALLET_NAME_FIELD @ '':'' @ ''Savings'')"
    by (simp add: demo_Collaborators_def)
  have w: "ABC_CryptoEncryptJSONFile demo_Collaborators
      (U08Buf_of_str (JSON_WALLET_NAME_FIELD @ '':'' @ ''Savings'')) (MK (heap demo_cached 1))
      (syncDir W1 @ WALLET_NAME_FILENAME) (world demo_cached) = (Inl ABC_CC_EncryptError, [])"
    by (simp add: demo_Collaborators_def)
  from C3_failed_write_keeps_new_name[OF wf_init demo_load_W1 j w] wf_init demo_load_W1
  show ?thesis by auto
qed

text \<open>
  C4: after every sequence of get-or-load, set-name, get-info and clear-cache operations
  from the initial state, whatever the collaborators do, no two entries of the cache
  array hold the same UUID, and every entry has one.
\<close>

theorem C4_one_record_per_identity:
  "distinct (cache_uuids (run E ops (init w)))
   \<and> list_all (\<lambda>u. u \<noteq> None) (cache_uuids (run E ops (init w)))"
  using wf_run[OF wf_init, of E ops w] by (simp add: wf_def)

text \<open>
  C5: for every identity whose record is already cached, \<^verbatim>\<open>ABC_WalletCacheData\<close> returns
  the pointer to that cached record and leaves the whole state as it was, the heap and
  the world included. The collaborators \<open>E\<close> are arbitrary, so the outcome depends on no
  disk read and on no key-material resolution: a repeated load is idempotent.
\<close>

theorem C5_cached_getOrLoad:
  assumes "ABC_WalletGetFromCacheByUUID (Some (id_Wallet self)) s = Inr p" and "p \<noteq> NULL"
  shows "ABC_WalletCacheData E self s = (Inr p, s)"
  using assms by (simp add: ABC_WalletCacheData_def)

theorem C5_cached_getOrLoad_witness:
  "ABC_WalletGetFromCacheByUUID (Some (id_Wallet W1)) demo_cached = Inr 1
   \<and> (1::nat) \<noteq> NULL
   \<and> ABC_WalletCacheData demo_Collaborators W1 demo_cached = (Inr 1, demo_cached)"
proof -
  have h: "ABC_WalletGetFromCacheByUUID (Some (id_Wallet W1)) demo_cached = Inr 1"
    by (simp add: ABC_WalletGetFromCacheByUUID_def)
  have n: "(1::nat) \<noteq> NULL" by simp
  show ?thesis using h n C5_cached_getOrLoad[OF h n, of demo_Collaborators] by simp
qed

text \<open>
  C6: for every wallet that is not cached, whose key material resolves (the wallet list
  has the three fields and both keys decode) and whose sync directory does not exist,
  \<^verbatim>\<open>ABC_WalletCacheData\<close> succeeds, and the record it returns has the empty name and the
  currency number \<open>-1\<close>.
\<close>

theorem C6_missing_sync_directory:
  assumes "wf s"
    and "ABC_WalletGetFromCacheByUUID (Some (id_Wallet self)) s = Inr NULL"
    and "wallets_json E (world s) (id_Wallet self) = Inr json"
    and "dataKey json = Some dk" and "base16Decode E dk = Inr mk"
    and "bitcoinKey json = Some bk" and "base16Decode E bk = Inr seed"
    and "syncKey json = Some sk"
    and "\<not> fileExists E (world s) (syncDir self)"
  shows "loaded_record (ABC_WalletCacheData E self s) =
     Inr \<lparr>szUUID = Some (id_Wallet self), szName = Some [], szWalletAcctKey = Some sk,
          currencyNum = - 1, MK = mk, BitcoinPrivateSeed = seed\<rparr>"
proof -
  have nf: "find_uuid (heap s) (id_Wallet self) (cache_ptrs s) = NULL"
    using assms(2) by (simp add: lookup_NULL_iff)
  show ?thesis
    unfolding loaded_record_CacheData[OF assms(1) nf]
    using fill_key_material[OF assms(3-8)] assms(9) by simp
qed

theorem C6_missing_sync_directory_witness:
  "wf (init ([]::string list))
   \<and> ABC_WalletGetFromCacheByUUID (Some (id_Wallet W1)) (init ([]::string list)) = Inr NULL
   \<and> \<not> fileExists demo_Collaborators (world (init [])) (syncDir W1)
   \<and> loaded_record (ABC_WalletCacheData demo_Collaborators W1 (init [])) =
       Inr \<lparr>szUUID = Some ''W1'', szName = Some [], szWalletAcctKey = Some ''sync1'',
            currencyNum = - 1, MK = [0xAA, 0x11], BitcoinPrivateSeed = [0xBB, 0x22]\<rparr>"
proof -
  let ?s = "init ([]::string list)"
  have l: "ABC_WalletGetFromCacheByUUID (Some (id_Wallet W1)) ?s = Inr NULL"
    by (simp add: ABC_WalletGetFromCacheByUUID_def init_def cache_ptrs_def)
  have j: "wallets_json demo_Collaborators (world ?s) (id_Wallet W1) =
      Inr \<lparr>dataKey = Some ''AA11'', syncKey = Some ''sync1'', bitcoinKey = Some ''BB22''\<rparr>"
    by (simp add: demo_Collaborators_def)
  have d1: "base16Decode demo_Collaborators ''AA11'' = Inr [0xAA, 0x11]"
    and d2: "base16Decode demo_Collaborators ''BB22'' = Inr [0xBB, 0x22]"
    by (simp_all add: demo_Collaborators_def)
  have nd: "\<not> fileExists demo_Collaborators (world ?s) (syncDir W1)"
    by (simp add: demo_Collaborators_def init_def)
  from C6_missing_sync_directory[OF wf_init l j _ d1 _ d2 _ nd] wf_init l nd
  show ?thesis by simp
qed

text \<open>
  C7: for every wallet that is not cached, whose key material resolves and whose sync
  directory exists, the load reads the name file and the currency file each on its own,
  as the specification says (\<open>spec_load_name\<close>, \<open>spec_load_currency\<close>): a file that exists
  is decrypted and parsed into its field, a failure of either step is the error of the
  load, and a file that does not exist gives its field the default (the empty string or
  \<open>-1\<close>) whatever happens to the other field.
\<close>

theorem C7_files_loaded_independently:
  assumes "wf s"
    and "ABC_WalletGetFromCacheByUUID (Some (id_Wallet self)) s = Inr NULL"
    and "wallets_json E (world s) (id_Wallet self) = Inr json"
    and "dataKey json = Some dk" and "base16Decode E dk = Inr mk"
    and "bitcoinKey json = Some bk" and "base16Decode E bk = Inr seed"
    and "syncKey json = Some sk"
    and "fileExists E (world s) (syncDir self)"
  shows "loaded_record (ABC_WalletCacheData E self s) =
     (case spec_load_name E (world s) self mk of
        Inl e \<Rightarrow> Inl e
      | Inr name \<Rightarrow>
          (case spec_load_currency E (world s) self mk of
             Inl e \<Rightarrow> Inl e
           | Inr num \<Rightarrow>
               Inr \<lparr>szUUID = Some (id_Wallet self), szName = Some name,
                    szWalletAcctKey = Some sk, currencyNum = num, MK = mk,
                    BitcoinPrivateSeed = seed\<rparr>))"
proof -
  have nf: "find_uuid (heap s) (id_Wallet self) (cache_ptrs s) = NULL"
    using assms(2) by (simp add: lookup_NULL_iff)
  show ?thesis
    unfolding loaded_record_CacheData[OF assms(1) nf]
    using fill_key_material[OF assms(3-8)] assms(9) by simp
qed

theorem C7_files_loaded_independently_witness:
  "wf (init [''/W1/'', ''/W1/WalletName.json''])
   \<and> fileExists demo_Collaborators (world (init [''/W1/'', ''/W1/WalletName.json'']))
        (syncDir W1)
   \<and> loaded_record
        (ABC_WalletCacheData demo_Collaborators W1 (init [''/W1/'', ''/W1/WalletName.json''])) =
       Inr \<lparr>szUUID = Some ''W1'', szName = Some ''Savings'', szWalletAcctKey = Some ''sync1'',
            currencyNum = - 1, MK = [0xAA, 0x11], BitcoinPrivateSeed = [0xBB, 0x22]\<rparr>"
proof -
  let ?s = "init [''/W1/'', ''/W1/WalletName.json'']"
  have l: "ABC_WalletGetFromCacheByUUID (Some (id_Wallet W1)) ?s = Inr NULL"
    by (simp add: ABC_WalletGetFromCacheByUUID_def init_def cache_ptrs_def)
  have j: "wallets_json demo_Collaborators (world ?s) (id_Wallet W1) =
      Inr \<lparr>dataKey = Some ''AA11'', syncKey = Some ''sync1'', bitcoinKey = Some ''BB22''\<rparr>"
    by (simp add: demo_Collaborators_def)
  have d1: "base16Decode demo_Collaborators ''AA11'' = Inr [0xAA, 0x11]"
    and d2: "base16Decode demo_Collaborators ''BB22'' = Inr [0xBB, 0x22]"
    by (simp_all add: demo_Collaborators_def)
  have d: "fileExists demo_Collaborators (world ?s) (syncDir W1)"
    by (simp add: demo_Collaborators_def init_def)
  have n: "spec_load_name demo_Collaborators (world ?s) W1 [0xAA, 0x11] = Inr ''Savings''"
    by (simp add: spec_load_name_def demo_Collaborators_def init_def)
  have c: "spec_load_currency demo_Collaborators (world ?s) W1 [0xAA, 0x11] = Inr (- 1)"
    by (simp add: spec_load_currency_def demo_Collaborators_def init_def)
  from C7_files_loaded_independently[OF wf_init l j _ d1 _ d2 _ d] wf_init d n c
  show ?thesis by simp
qed

text \<open>
  C8: \<^verbatim>\<open>ABC_WalletGetInfo\<close> is all or nothing. If the load of the record fails, or the
  lookup of the archived flag, or the computation of the balance, the call returns that
  error and the caller's pointer \<^verbatim>\<open>*ppWalletInfo\<close> holds what it held before; otherwise the
  call succeeds and the pointer holds a snapshot with the identity, the name and the
  currency number of the cached record, the archived flag and the balance.
\<close>

theorem C8_getInfo_all_or_nothing:
  "ABC_WalletGetInfo E self ppWalletInfo s =
     (case ABC_WalletCacheData E self s of
        (Inl e, s1) \<Rightarrow> (Inl e, ppWalletInfo, s1)
      | (Inr pData, s1) \<Rightarrow>
          (case wallets_archived E (world s1) (id_Wallet self) of
             Inl e \<Rightarrow> (Inl e, ppWalletInfo, s1)
           | Inr archived \<Rightarrow>
               (case balance E (world s1) self of
                  Inl e \<Rightarrow> (Inl e, ppWalletInfo, s1)
                | Inr satoshi \<Rightarrow>
                    (Inr (),
                     Some \<lparr>info_szUUID = Some (id_Wallet self),
                           info_szName = szName (heap s1 pData),
                           info_currencyNum = currencyNum (heap s1 pData),
                           info_archived = archived,
                           info_balanceSatoshi = satoshi\<rparr>,
                     s1))))"
  by (simp add: ABC_WalletGetInfo_def zero_tABC_WalletInfo_def Let_def
      split: prod.splits sum.splits option.splits)

text \<open>
  C9: take an identity that is not cached and is then loaded, any operations after that,
  and a world that is the same before the clear as it was at the load. Then
  \<^verbatim>\<open>ABC_WalletClearCache\<close> leaves no array and a count of zero, every struct that was
  cached has been through \<^verbatim>\<open>ABC_WalletFreeData\<close>, and a load of the identity after the clear
  succeeds with a new struct, at an address that is neither the old one nor any that was
  cached, filled again from the collaborators and equal, field by field, to the struct
  of the first load.
\<close>

theorem C9_clear_then_reload:
  assumes "wf s"
    and "ABC_WalletGetFromCacheByUUID (Some (id_Wallet self)) s = Inr NULL"
    and "ABC_WalletCacheData E self s = (Inr pData, s1)"
    and "s2 = run E ops s1"
    and "world s2 = world s1"
  shows "gWalletsCacheCount (ABC_WalletClearCache s2) = 0
      \<and> gaWalletsCacheArray (ABC_WalletClearCache s2) = None
      \<and> cache_records (ABC_WalletClearCache s2) = []
      \<and> list_all (\<lambda>q. heap (ABC_WalletClearCache s2) q = freed (heap s2 q)) (cache_ptrs s2)
      \<and> (\<exists>pNew s3.
            ABC_WalletCacheData E self (ABC_WalletClearCache s2) = (Inr pNew, s3)
          \<and> pNew \<noteq> pData \<and> pNew \<notin> set (cache_ptrs s2)
          \<and> Inr (heap s3 pNew) = ABC_WalletCacheData_fill E self (world s2)
          \<and> heap s3 pNew = heap s1 pData)"
proof -
  let ?c = "ABC_WalletClearCache s2"
  have nf: "find_uuid (heap s) (id_Wallet self) (cache_ptrs s) = NULL"
    using assms(2) by (simp add: lookup_NULL_iff)
  obtain d where fill: "ABC_WalletCacheData_fill E self (world s) = Inr d"
    and p: "pData = brk s" and s1: "heap s1 pData = d" "world s1 = world s" "brk s1 = Suc (brk s)"
    using assms(1)
  proof (cases rule: CacheData_cases[where self = self and E = E])
    case (hit p)
    then show ?thesis using nf by simp
  next
    case (fail e)
    then show ?thesis using assms(3) by simp
  next
    case (load d)
    then show ?thesis using assms(3) that[of d] by auto
  qed
  have wf1: "wf s1" using wf_CacheData[OF assms(1), of E self] assms(3) by simp
  have wf2: "wf s2" unfolding assms(4) using wf1 by (rule wf_run)
  have wfc: "wf ?c" using wf2 by (rule wf_ClearCache)
  have brk2: "brk s1 \<le> brk s2" unfolding assms(4) using wf1 by (rule brk_run)
  have empty: "cache_ptrs ?c = []" by (rule ClearCache_empty)
  have nfc: "find_uuid (heap ?c) (id_Wallet self) (cache_ptrs ?c) = NULL"
    by (simp add: empty)
  have fillc: "ABC_WalletCacheData_fill E self (world ?c) = Inr d"
    using fill assms(5) s1(2) by (simp add: ClearCache_frame)
  have reload: "ABC_WalletCacheData E self ?c =
      (Inr (brk ?c),
       ?c\<lparr>heap := (heap ?c)(brk ?c := d), brk := Suc (brk ?c),
          gaWalletsCacheArray := Some (cache_ptrs ?c @ [brk ?c]),
          gWalletsCacheCount := Suc (length (cache_ptrs ?c))\<rparr>)"
    using wfc nfc fillc by (rule CacheData_ok)
  have fresh: "brk ?c \<noteq> pData" "brk ?c \<notin> set (cache_ptrs s2)"
    using brk2 p s1(3) cache_ptrs_fresh[OF wf2] by (simp_all add: ClearCache_frame)
  have fill2: "ABC_WalletCacheData_fill E self (world s2) = Inr d"
    using fill assms(5) s1(2) by simp
  show ?thesis
    using ClearCache_globals[OF wf2] ClearCache_destroys[OF wf2] empty reload fresh fill2 s1(1)
    by (simp add: cache_records_def)
qed

theorem C9_clear_then_reload_witness:
  "wf (init ([]::string list))
   \<and> ABC_WalletGetFromCacheByUUID (Some (id_Wallet W1)) (init ([]::string list)) = Inr NULL
   \<and> ABC_WalletCacheData demo_Collaborators W1 (init []) = (Inr 1, demo_cached)
   \<and> world (run demo_Collaborators [SetName W1 ''Savings'', GetInfo W1] demo_cached) =
       world demo_cached
   \<and> cache_records (ABC_WalletClearCache
        (run demo_Collaborators [SetName W1 ''Savings'', GetInfo W1] demo_cached)) = []
   \<and> loaded_record (ABC_WalletCacheData demo_Collaborators W1 (ABC_WalletClearCache
        (run demo_Collaborators [SetName W1 ''Savings'', GetInfo W1] demo_cached))) =
       Inr demo_record"
proof -
  let ?s2 = "run demo_Collaborators [SetName W1 ''Savings'', GetInfo W1] demo_cached"
  have l: "ABC_WalletGetFromCacheByUUID (Some (id_Wallet W1)) (init ([]::string list)) = Inr NULL"
    by (simp add: ABC_WalletGetFromCacheByUUID_def init_def cache_ptrs_def)
  have w: "world ?s2 = world demo_cached" by (simp add: demo_run)
  from C9_clear_then_reload[OF wf_init l demo_load_W1 refl w] wf_init l demo_load_W1 w
  show ?thesis by (auto simp: loaded_record_def)
qed

text \<open>
  C10: for every identity that is not cached, if the load inside \<^verbatim>\<open>ABC_WalletGetInfo\<close>
  succeeds and then the lookup of the archived flag or the computation of the balance
  fails with \<open>e\<close>, the call returns \<open>e\<close> in the state the load left: the new struct is the
  last entry of the cache, the lookup finds it, and it holds what the population
  built.
\<close>

theorem C10_failed_getInfo_keeps_record:
  assumes "wf s"
    and "ABC_WalletGetFromCacheByUUID (Some (id_Wallet self)) s = Inr NULL"
    and "ABC_WalletCacheData E self s = (Inr pData, s1)"
    and "wallets_archived E (world s1) (id_Wallet self) = Inl e
         \<or> (\<exists>archived. wallets_archived E (world s1) (id_Wallet self) = Inr archived
               \<and> balance E (world s1) self = Inl e)"
  shows "ABC_WalletGetInfo E self ppWalletInfo s = (Inl e, ppWalletInfo, s1)
      \<and> pData \<noteq> NULL
      \<and> ABC_WalletGetFromCacheByUUID (Some (id_Wallet self)) s1 = Inr pData
      \<and> cache_ptrs s1 = cache_ptrs s @ [pData]
      \<and> Inr (heap s1 pData) = ABC_WalletCacheData_fill E self (world s)"
proof -
  have nf: "find_uuid (heap s) (id_Wallet self) (cache_ptrs s) = NULL"
    using assms(2) by (simp add: lookup_NULL_iff)
  have c: "pData \<noteq> NULL \<and> find_uuid (heap s1) (id_Wallet self) (cache_ptrs s1) = pData"
    using assms(1,3) by (rule CacheData_returns_cached)
  have g: "ABC_WalletGetInfo E self ppWalletInfo s = (Inl e, ppWalletInfo, s1)"
    using assms(3,4) by (auto simp: ABC_WalletGetInfo_def Let_def)
  have p: "cache_ptrs s1 = cache_ptrs s @ [pData] \<and>
        Inr (heap s1 pData) = ABC_WalletCacheData_fill E self (world s)"
    using assms(1)
  proof (cases rule: CacheData_cases[where self = self and E = E])
    case (hit p)
    then show ?thesis using nf by simp
  next
    case (fail e)
    then show ?thesis using assms(3) by simp
  next
    case (load d)
    then show ?thesis using assms(3) by auto
  qed
  show ?thesis using c g p by (simp add: lookup_NULL_iff)
qed

theorem C10_failed_getInfo_keeps_record_witness:
  "wf (init ([]::string list))
   \<and> ABC_WalletGetFromCacheByUUID (Some (id_Wallet W1)) (init ([]::string list)) = Inr NULL
   \<and> ABC_WalletGetInfo demo_Collaborators W1 None (init []) = (Inl ABC_CC_Error, None, demo_cached)
   \<and> ABC_WalletGetFromCacheByUUID (Some (id_Wallet W1)) demo_cached = Inr 1
   \<and> cache_ptrs demo_cached = [1]"
proof -
  have l: "ABC_WalletGetFromCacheByUUID (Some (id_Wallet W1)) (init ([]::string list)) = Inr NULL"
    by (simp add: ABC_WalletGetFromCacheByUUID_def init_def cache_ptrs_def)
  have f: "wallets_archived demo_Collaborators (world demo_cached) (id_Wallet W1) = Inl ABC_CC_Error
         \<or> (\<exists>archived. wallets_archived demo_Collaborators (world demo_cached) (id_Wallet W1) = Inr archived
               \<and> balance demo_Collaborators (world demo_cached) W1 = Inl ABC_CC_Error)"
    by (rule disjI2, rule exI[of _ False]) (simp add: demo_Collaborators_def)
  from C10_failed_getInfo_keeps_record[OF wf_init l demo_load_W1 f, of None] wf_init l
  show ?thesis by simp
qed

end
